theory Spec2Isabelle
  imports Main "HOL-Library.Word" "HOL-Library.Signed_Division"
begin

section \<open>Values of the interpreter\<close>

text \<open>
  The interpreter (the last revision of \<^verbatim>\<open>interpreter.c\<close>, version 0.0.0.0.8) keeps every
  runtime value in a \<^verbatim>\<open>struct lval\<close>: a type tag, an anonymous union of
  \<^verbatim>\<open>long num\<close>, \<^verbatim>\<open>double dnum\<close>, \<^verbatim>\<open>char* err\<close>, \<^verbatim>\<open>char* sym\<close> and
  \<^verbatim>\<open>lbuiltin builtin\<close>, the closure fields \<^verbatim>\<open>env\<close>, \<^verbatim>\<open>formals\<close>, \<^verbatim>\<open>body\<close>, and the
  cell array of a list.

  The numeric members \<^verbatim>\<open>num\<close> and \<^verbatim>\<open>dnum\<close> share the same eight bytes of the union. The
  model therefore stores the payload of both numeric kinds as a 64-bit word: for
  \<^verbatim>\<open>LVAL_NUM\<close> it is the two's complement \<^verbatim>\<open>long\<close>, for \<^verbatim>\<open>LVAL_FLOAT\<close> it is the bit
  pattern of the \<^verbatim>\<open>double\<close>. Writing one member and reading the other, which the code
  does, is then the identity on the stored word.
\<close>

type_synonym long = "64 word"
type_synonym double = "64 word"

text \<open>The native operations, one constructor per function that \<^verbatim>\<open>lenv_add_builtins\<close> registers.\<close>

datatype builtin =
    B_list | B_head | B_tail | B_eval | B_join | B_cons | B_len | B_init
  | B_lambda | B_def | B_put
  | B_add | B_sub | B_mul | B_div | B_mod | B_pow | B_min | B_max

text \<open>
  \<^verbatim>\<open>LVAL_FUN\<close> has two shapes, told apart by \<^verbatim>\<open>builtin != NULL\<close>: a native function, or
  a closure with its environment (the parallel arrays \<^verbatim>\<open>syms\<close>/\<^verbatim>\<open>vals\<close> as an
  association list in array order), its formals and its body.

  The \<^verbatim>\<open>par\<close> pointer of a closure's environment is not part of the value: it is \<^verbatim>\<open>NULL\<close>
  from \<^verbatim>\<open>lenv_new\<close>, \<^verbatim>\<open>lenv_copy\<close> copies it as it is, and \<^verbatim>\<open>lval_call\<close> assigns it only
  when all formals are bound, immediately before the body is evaluated; the closure is
  then destroyed by the caller (\<^verbatim>\<open>lval_del(f)\<close> in \<^verbatim>\<open>lval_eval_sexpr\<close>) without having been
  copied. The parent chain that exists during evaluation is modelled by \<open>lenv\<close> below.
\<close>

datatype lval =
    Num long
  | Flt double
  | Err string
  | Sym string
  | Sexpr "lval list"
  | Qexpr "lval list"
  | Builtin builtin
  | Lambda "(string \<times> lval) list" lval lval

type_synonym frame = "(string \<times> lval) list"

text \<open>
  What the C code leaves to the machine: the floating-point unit (conversion, arithmetic,
  \<^verbatim>\<open>fmod\<close>, \<^verbatim>\<open>pow\<close> and comparison on \<^verbatim>\<open>double\<close>, here on bit patterns) and the content of
  heap storage that \<^verbatim>\<open>malloc\<close> returned and nobody has written yet. Every theorem below
  holds for every such platform.
\<close>

record platform =
  d_of_long :: "long \<Rightarrow> double"
  d_neg :: "double \<Rightarrow> double"
  d_add :: "double \<Rightarrow> double \<Rightarrow> double"
  d_sub :: "double \<Rightarrow> double \<Rightarrow> double"
  d_mul :: "double \<Rightarrow> double \<Rightarrow> double"
  d_div :: "double \<Rightarrow> double \<Rightarrow> double"
  d_fmod :: "double \<Rightarrow> double \<Rightarrow> double"
  d_pow :: "double \<Rightarrow> double \<Rightarrow> double"
  d_gt :: "double \<Rightarrow> double \<Rightarrow> bool"
  uninit :: "64 word"

text \<open>
  Abnormal ends of a run. \<open>OutOfFuel\<close> belongs to the model only: the evaluator below is
  given a bound on the nesting depth of \<^verbatim>\<open>lval_eval\<close>, and exceeding it is not a result.
  The others are what the machine does: the division instruction raises an exception
  when the divisor is zero or the quotient is not representable, an index outside
  \<^verbatim>\<open>0 .. count-1\<close> reads or moves memory outside the cell array, and a union member or
  field is read that the value's kind never stored.
\<close>

datatype fault = OutOfFuel | DivideTrap | OutOfBounds | BadField

section \<open>Constructors, copy, pop and take\<close>

text \<open>\<^verbatim>\<open>lval_err\<close> formats into 512 bytes with \<^verbatim>\<open>vsnprintf(v->err, 511, ...)\<close>: at most 510 characters survive.\<close>

definition lval_err :: "string \<Rightarrow> lval" where
  "lval_err msg = Err (take 510 msg)"

function dec_digits :: "nat \<Rightarrow> string" where
  "dec_digits n =
     (if n < 10 then [char_of (48 + n)]
      else dec_digits (n div 10) @ [char_of (48 + n mod 10)])"
  by pat_completeness auto
termination
  by (relation "measure id") auto

declare dec_digits.simps [simp del]

text \<open>The conversion \<^verbatim>\<open>%i\<close> of \<^verbatim>\<open>printf\<close>.\<close>

definition fmt_i :: "int \<Rightarrow> string" where
  "fmt_i i = (if i < 0 then CHR ''-'' # dec_digits (nat (- i)) else dec_digits (nat i))"

fun ltype_name :: "lval \<Rightarrow> string" where
  "ltype_name (Builtin _) = ''Function''"
| "ltype_name (Lambda _ _ _) = ''Function''"
| "ltype_name (Num _) = ''Number''"
| "ltype_name (Err _) = ''Error''"
| "ltype_name (Sym _) = ''Symbol''"
| "ltype_name (Sexpr _) = ''S-Expression''"
| "ltype_name (Qexpr _) = ''Q-Expression''"
| "ltype_name (Flt _) = ''Unknown''"

text \<open>
  \<^verbatim>\<open>lval_copy\<close> allocates a fresh struct, copies the tag and then switches on it. The switch
  has the cases \<^verbatim>\<open>LVAL_FUN\<close>, \<^verbatim>\<open>LVAL_NUM\<close>, \<^verbatim>\<open>LVAL_ERR\<close>, \<^verbatim>\<open>LVAL_SYM\<close>, \<^verbatim>\<open>LVAL_SEXPR\<close> and
  \<^verbatim>\<open>LVAL_QEXPR\<close>; there is no case for \<^verbatim>\<open>LVAL_FLOAT\<close>, so the union of the copy keeps what
  the allocator left there. \<^verbatim>\<open>lenv_copy\<close> copies every binding with \<^verbatim>\<open>lval_copy\<close>.
\<close>

fun lval_copy :: "platform \<Rightarrow> lval \<Rightarrow> lval"
  and lenv_copy :: "platform \<Rightarrow> frame \<Rightarrow> frame" where
  "lval_copy pf (Builtin b) = Builtin b"
| "lval_copy pf (Lambda env formals body) =
     Lambda (lenv_copy pf env) (lval_copy pf formals) (lval_copy pf body)"
| "lval_copy pf (Num n) = Num n"
| "lval_copy pf (Err m) = Err m"
| "lval_copy pf (Sym s) = Sym s"
| "lval_copy pf (Sexpr cells) = Sexpr (map (lval_copy pf) cells)"
| "lval_copy pf (Qexpr cells) = Qexpr (map (lval_copy pf) cells)"
| "lval_copy pf (Flt d) = Flt (uninit pf)"
| "lenv_copy pf [] = []"
| "lenv_copy pf (b # env) = (fst b, lval_copy pf (snd b)) # lenv_copy pf env"

text \<open>
  \<^verbatim>\<open>lval_pop(v, i)\<close> on the cell array: the element at \<open>i\<close> and the array without it.
  \<^verbatim>\<open>lval_take\<close> pops and destroys the container.
\<close>

definition lval_pop :: "lval list \<Rightarrow> int \<Rightarrow> fault + (lval \<times> lval list)" where
  "lval_pop cell i =
     (if 0 \<le> i \<and> i < int (length cell)
      then Inr (cell ! nat i, take (nat i) cell @ drop (Suc (nat i)) cell)
      else Inl OutOfBounds)"

definition lval_take :: "lval list \<Rightarrow> int \<Rightarrow> fault + lval" where
  "lval_take cell i = (case lval_pop cell i of Inl f \<Rightarrow> Inl f | Inr (x, rest) \<Rightarrow> Inr x)"

section \<open>Arithmetic builtins\<close>

text \<open>
  Integer arithmetic is modelled as \<^verbatim>\<open>gcc\<close> compiles it for x86-64:
  \<^verbatim>\<open>+\<close>, \<^verbatim>\<open>-\<close> and \<^verbatim>\<open>*\<close> on \<^verbatim>\<open>long\<close> wrap around in two's complement. The
  division instruction behind \<^verbatim>\<open>/\<close> and \<^verbatim>\<open>%\<close> has no result when the divisor is zero,
  or when the quotient \<open>2^63\<close> of \<^verbatim>\<open>LONG_MIN\<close> by \<open>-1\<close> is not representable: it raises
  the divide error and the process receives \<^verbatim>\<open>SIGFPE\<close> (in ISO C both cases are
  undefined behaviour). Otherwise quotient and remainder truncate towards zero.
\<close>

definition LONG_MIN :: long where
  "LONG_MIN = - (2 ^ 63)"

definition long_div :: "long \<Rightarrow> long \<Rightarrow> fault + long" where
  "long_div x y =
     (if y = 0 then Inl DivideTrap
      else if x = LONG_MIN \<and> y = - 1 then Inl DivideTrap
      else Inr (word_of_int (sint x sdiv sint y)))"

definition long_rem :: "long \<Rightarrow> long \<Rightarrow> fault + long" where
  "long_rem x y =
     (if y = 0 then Inl DivideTrap
      else if x = LONG_MIN \<and> y = - 1 then Inl DivideTrap
      else Inr (word_of_int (sint x smod sint y)))"

text \<open>
  \<^verbatim>\<open>long ipow(long base, int exp)\<close>: the loop runs on \<open>res\<close>, \<open>base\<close> and \<open>exp\<close>. The exponent
  is an \<^verbatim>\<open>int\<close>; while it is positive, \<^verbatim>\<open>exp % 2\<close> and \<^verbatim>\<open>exp /= 2\<close> are \<open>mod\<close> and \<open>div\<close>.
\<close>

function ipow_loop :: "long \<Rightarrow> long \<Rightarrow> int \<Rightarrow> long" where
  "ipow_loop res base exp =
     (if exp > 0
      then ipow_loop (if exp mod 2 = 1 then res * base else res) (base * base) (exp div 2)
      else res)"
  by pat_completeness auto
termination
  by (relation "measure (\<lambda>(res, base, exp). nat exp)") auto

declare ipow_loop.simps [simp del]

definition ipow :: "long \<Rightarrow> int \<Rightarrow> long" where
  "ipow base exp = ipow_loop 1 base exp"

text \<open>The call \<^verbatim>\<open>ipow(x->num, y->num)\<close> converts the \<^verbatim>\<open>long\<close> exponent to \<^verbatim>\<open>int\<close>: the low 32 bits, signed.\<close>

definition int_of_long :: "long \<Rightarrow> int" where
  "int_of_long y = sint (ucast y :: 32 word)"

text \<open>
  One round of the reduction loop of \<^verbatim>\<open>builtin_op\<close> either goes on with the updated \<open>x\<close>
  or leaves the loop (\<^verbatim>\<open>break\<close>) with the value to return.
\<close>

datatype step = Continue lval | Break lval

definition double_arith :: "platform \<Rightarrow> string \<Rightarrow> double \<Rightarrow> double \<Rightarrow> double option" where
  "double_arith pf op op1 op2 =
     (if op = ''+'' then Some (d_add pf op1 op2)
      else if op = ''-'' then Some (d_sub pf op1 op2)
      else if op = ''*'' then Some (d_mul pf op1 op2)
      else if op = ''/'' then Some (d_div pf op1 op2)
      else if op = ''%'' then Some (d_fmod pf op1 op2)
      else if op = ''^'' then Some (d_pow pf op1 op2)
      else if op = ''min'' then Some (if d_gt pf op1 op2 then op2 else op1)
      else if op = ''max'' then Some (if d_gt pf op1 op2 then op1 else op2)
      else None)"

definition long_arith :: "string \<Rightarrow> long \<Rightarrow> long \<Rightarrow> fault + step" where
  "long_arith op xn yn =
     (if op = ''+'' then Inr (Continue (Num (xn + yn)))
      else if op = ''-'' then Inr (Continue (Num (xn - yn)))
      else if op = ''*'' then Inr (Continue (Num (xn * yn)))
      else if op = ''/'' then
        (if yn = 0 then Inr (Break (lval_err ''Division By Zero!''))
         else (case long_div xn yn of Inl f \<Rightarrow> Inl f | Inr q \<Rightarrow> Inr (Continue (Num q))))
      else if op = ''%'' then
        (case long_rem xn yn of Inl f \<Rightarrow> Inl f | Inr r \<Rightarrow> Inr (Continue (Num r)))
      else if op = ''^'' then Inr (Continue (Num (ipow xn (int_of_long yn))))
      else if op = ''min'' then Inr (Continue (Num (if sint xn > sint yn then yn else xn)))
      else if op = ''max'' then Inr (Continue (Num (if sint xn > sint yn then xn else yn)))
      else Inr (Continue (Num xn)))"

text \<open>
  The body of the \<^verbatim>\<open>while\<close> loop for the current \<open>x\<close> and the popped \<open>y\<close>. In the first
  branch (one of the two is \<^verbatim>\<open>LVAL_FLOAT\<close>) the code computes on \<^verbatim>\<open>double\<close> and stores the
  result with \<^verbatim>\<open>x->dnum = ...\<close>. It assigns the union member only: \<^verbatim>\<open>x->type\<close> is never
  written in \<^verbatim>\<open>builtin_op\<close>, so \<open>x\<close> keeps the tag it was popped with.
\<close>

fun builtin_op_pair :: "platform \<Rightarrow> string \<Rightarrow> lval \<Rightarrow> lval \<Rightarrow> fault + step" where
  "builtin_op_pair pf op (Flt xd) (Num yn) =
     Inr (Continue (case double_arith pf op xd (d_of_long pf yn) of
                      Some d \<Rightarrow> Flt d | None \<Rightarrow> Flt xd))"
| "builtin_op_pair pf op (Num xn) (Flt yd) =
     Inr (Continue (case double_arith pf op (d_of_long pf xn) yd of
                      Some d \<Rightarrow> Num d | None \<Rightarrow> Num xn))"
| "builtin_op_pair pf op (Flt xd) (Flt yd) =
     Inr (Continue (case double_arith pf op xd yd of
                      Some d \<Rightarrow> Flt d | None \<Rightarrow> Flt xd))"
| "builtin_op_pair pf op (Num xn) (Num yn) = long_arith op xn yn"
| "builtin_op_pair pf op x y = Inr (Continue x)"

fun builtin_op_loop :: "platform \<Rightarrow> string \<Rightarrow> lval \<Rightarrow> lval list \<Rightarrow> fault + lval" where
  "builtin_op_loop pf op x [] = Inr x"
| "builtin_op_loop pf op x (y # a) =
     (case builtin_op_pair pf op x y of
        Inl f \<Rightarrow> Inl f
      | Inr (Break r) \<Rightarrow> Inr r
      | Inr (Continue x') \<Rightarrow> builtin_op_loop pf op x' a)"

text \<open>The first loop of \<^verbatim>\<open>builtin_op\<close>: every cell is \<^verbatim>\<open>LVAL_NUM\<close> or \<^verbatim>\<open>LVAL_FLOAT\<close>.\<close>

fun all_numbers :: "lval list \<Rightarrow> bool" where
  "all_numbers [] = True"
| "all_numbers (Num n # a) = all_numbers a"
| "all_numbers (Flt d # a) = all_numbers a"
| "all_numbers (c # a) = False"

text \<open>The \<^verbatim>\<open>switch\<close> of the unary minus: it has cases for the two numeric kinds only.\<close>

fun negate :: "platform \<Rightarrow> lval \<Rightarrow> lval" where
  "negate pf (Num n) = Num (- n)"
| "negate pf (Flt d) = Flt (d_neg pf d)"
| "negate pf x = x"

definition builtin_op :: "platform \<Rightarrow> lval list \<Rightarrow> string \<Rightarrow> fault + lval" where
  "builtin_op pf a op =
     (if all_numbers a then
        (case lval_pop a 0 of
           Inl f \<Rightarrow> Inl f
         | Inr (x, a') \<Rightarrow>
             builtin_op_loop pf op (if op = ''-'' \<and> a' = [] then negate pf x else x) a')
      else Inr (lval_err ''Cannot operate on non-number!''))"

section \<open>List builtins\<close>

text \<open>\<^verbatim>\<open>while (v->count > 1) { lval_del(lval_pop(v, 1)); }\<close>\<close>

fun head_loop :: "lval list \<Rightarrow> lval list" where
  "head_loop (c0 # c1 # cell) = head_loop (c0 # cell)"
| "head_loop cell = cell"

definition builtin_head :: "lval list \<Rightarrow> fault + lval" where
  "builtin_head a =
     (if length a = 1 then
        (case a ! 0 of
           Qexpr cell \<Rightarrow>
             (if cell = [] then Inr (lval_err ''Function 'head' passed {}!'')
              else (case lval_take a 0 of
                      Inr (Qexpr v) \<Rightarrow> Inr (Qexpr (head_loop v))
                    | Inr _ \<Rightarrow> Inl BadField
                    | Inl f \<Rightarrow> Inl f))
         | _ \<Rightarrow> Inr (lval_err ''Function 'head' passed incorrect type!''))
      else Inr (lval_err ''Function 'head' passed too many arguments!''))"

definition builtin_tail :: "lval list \<Rightarrow> fault + lval" where
  "builtin_tail a =
     (if length a = 1 then
        (case a ! 0 of
           Qexpr cell \<Rightarrow>
             (if cell = [] then Inr (lval_err ''Function 'tail' passed {}!'')
              else (case lval_take a 0 of
                      Inr (Qexpr v) \<Rightarrow>
                        (case lval_pop v 0 of Inl f \<Rightarrow> Inl f | Inr (x, v') \<Rightarrow> Inr (Qexpr v'))
                    | Inr _ \<Rightarrow> Inl BadField
                    | Inl f \<Rightarrow> Inl f))
         | _ \<Rightarrow> Inr (lval_err ''Function 'tail' passed incorrect type!''))
      else Inr (lval_err ''Function 'tail' passed too many arguments!''))"

text \<open>
  \<^verbatim>\<open>builtin_init\<close> ends with
  \<^verbatim>\<open>lval_t* v = lval_take(a, 0); lval_del(lval_pop(v, a->count-1));\<close>.
  The index is computed from the argument list \<open>a\<close>, not from the operand \<open>v\<close>.
  \<^verbatim>\<open>lval_take\<close> has popped the only cell of \<open>a\<close> (which sets \<^verbatim>\<open>a->count\<close> to 0) and then
  released \<open>a\<close>; the model reads the count that \<open>a\<close> had when it was released.
\<close>

definition builtin_init :: "lval list \<Rightarrow> fault + lval" where
  "builtin_init a =
     (if length a = 1 then
        (case a ! 0 of
           Qexpr cell \<Rightarrow>
             (if cell = [] then Inr (lval_err ''Function 'init' passed {}!'')
              else (case lval_pop a 0 of
                      Inr (Qexpr v, a') \<Rightarrow>
                        (case lval_pop v (int (length a') - 1) of
                           Inl f \<Rightarrow> Inl f
                         | Inr (x, v') \<Rightarrow> Inr (Qexpr v'))
                    | Inr _ \<Rightarrow> Inl BadField
                    | Inl f \<Rightarrow> Inl f))
         | _ \<Rightarrow> Inr (lval_err ''Function 'init' passed incorrect type!''))
      else Inr (lval_err ''Function 'init' passed too many arguments!''))"

definition builtin_len :: "lval list \<Rightarrow> fault + lval" where
  "builtin_len a =
     (if length a = 1 then
        (case a ! 0 of
           Qexpr cell \<Rightarrow>
             (if cell = [] then Inr (lval_err ''Function 'len' passed {}!'')
              else (case lval_take a 0 of
                      Inr (Qexpr v) \<Rightarrow> Inr (Num (of_nat (length v)))
                    | Inr _ \<Rightarrow> Inl BadField
                    | Inl f \<Rightarrow> Inl f))
         | _ \<Rightarrow> Inr (lval_err ''Function 'len' passed incorrect type!''))
      else Inr (lval_err ''Function 'len' passed too many arguments!''))"

definition builtin_cons :: "lval list \<Rightarrow> fault + lval" where
  "builtin_cons a =
     (if length a = 2 then
        (case a ! 1 of
           Qexpr cell \<Rightarrow>
             (case lval_pop a 0 of
                Inl f \<Rightarrow> Inl f
              | Inr (val, a') \<Rightarrow>
                  (case lval_take a' 0 of
                     Inr (Qexpr qexpr) \<Rightarrow> Inr (Qexpr (val # qexpr))
                   | Inr _ \<Rightarrow> Inl BadField
                   | Inl f \<Rightarrow> Inl f))
         | _ \<Rightarrow> Inr (lval_err ''Function 'cons' passed incorrect type for second argument!''))
      else Inr (lval_err ''Function 'cons' passed wrong number of arguments!''))"

text \<open>\<^verbatim>\<open>lval_join\<close> moves the cells of \<open>y\<close> one by one to the end of \<open>x\<close>.\<close>

fun lval_join :: "lval list \<Rightarrow> lval list \<Rightarrow> lval list" where
  "lval_join x [] = x"
| "lval_join x (c # y) = lval_join (x @ [c]) y"

fun all_qexpr :: "lval list \<Rightarrow> bool" where
  "all_qexpr [] = True"
| "all_qexpr (Qexpr cell # a) = all_qexpr a"
| "all_qexpr (c # a) = False"

fun builtin_join_loop :: "lval list \<Rightarrow> lval list \<Rightarrow> fault + lval" where
  "builtin_join_loop x [] = Inr (Qexpr x)"
| "builtin_join_loop x (Qexpr y # a) = builtin_join_loop (lval_join x y) a"
| "builtin_join_loop x (c # a) = Inl BadField"

definition builtin_join :: "lval list \<Rightarrow> fault + lval" where
  "builtin_join a =
     (if all_qexpr a then
        (case lval_pop a 0 of
           Inr (Qexpr x, a') \<Rightarrow> builtin_join_loop x a'
         | Inr _ \<Rightarrow> Inl BadField
         | Inl f \<Rightarrow> Inl f)
      else Inr (lval_err ''Function 'join' passed incorrect type.''))"

section \<open>Environments\<close>

text \<open>
  \<^verbatim>\<open>struct lenv\<close>: the bindings and the parent pointer. During evaluation the parent
  pointers form a stack that ends in the global environment; an environment is modelled
  together with the environments it points to, and every operation that writes through
  the chain returns the chain as written.
\<close>

datatype lenv = Lenv frame "lenv option"

definition lenv_new :: lenv where
  "lenv_new = Lenv [] None"

fun frame_get :: "frame \<Rightarrow> string \<Rightarrow> lval option" where
  "frame_get [] k = None"
| "frame_get ((s, v) # e) k = (if s = k then Some v else frame_get e k)"

fun lenv_get :: "platform \<Rightarrow> lenv \<Rightarrow> string \<Rightarrow> lval" where
  "lenv_get pf (Lenv b None) k =
     (case frame_get b k of
        Some v \<Rightarrow> lval_copy pf v
      | None \<Rightarrow> lval_err (''Unbound Symbol '' @ [CHR 0x27] @ k @ [CHR 0x27]))"
| "lenv_get pf (Lenv b (Some par)) k =
     (case frame_get b k of
        Some v \<Rightarrow> lval_copy pf v
      | None \<Rightarrow> lenv_get pf par k)"

text \<open>\<^verbatim>\<open>lenv_put\<close>: replace the value at the first matching symbol, or append; a copy is stored.\<close>

fun frame_put :: "platform \<Rightarrow> frame \<Rightarrow> string \<Rightarrow> lval \<Rightarrow> frame" where
  "frame_put pf [] k v = [(k, lval_copy pf v)]"
| "frame_put pf ((s, w) # e) k v =
     (if s = k then (s, lval_copy pf v) # e else (s, w) # frame_put pf e k v)"

fun lenv_put :: "platform \<Rightarrow> lenv \<Rightarrow> string \<Rightarrow> lval \<Rightarrow> lenv" where
  "lenv_put pf (Lenv b par) k v = Lenv (frame_put pf b k v) par"

fun lenv_def :: "platform \<Rightarrow> lenv \<Rightarrow> string \<Rightarrow> lval \<Rightarrow> lenv" where
  "lenv_def pf (Lenv b None) k v = lenv_put pf (Lenv b None) k v"
| "lenv_def pf (Lenv b (Some par)) k v = Lenv b (Some (lenv_def pf par k v))"

definition lenv_add_builtin :: "platform \<Rightarrow> lenv \<Rightarrow> string \<Rightarrow> builtin \<Rightarrow> lenv" where
  "lenv_add_builtin pf e name func = lenv_put pf e name (Builtin func)"

definition lenv_add_builtins :: "platform \<Rightarrow> lenv \<Rightarrow> lenv" where
  "lenv_add_builtins pf e =
     foldl (\<lambda>e' nf. lenv_add_builtin pf e' (fst nf) (snd nf)) e
       [(''list'', B_list), (''head'', B_head), (''tail'', B_tail), (''eval'', B_eval),
        (''join'', B_join), (''cons'', B_cons), (''len'', B_len), (''init'', B_init),
        ([CHR 0x5C], B_lambda), (''def'', B_def), (''='', B_put),
        (''+'', B_add), (''-'', B_sub), (''*'', B_mul), (''/'', B_div),
        (''%'', B_mod), (''^'', B_pow), (''min'', B_min), (''max'', B_max)]"

section \<open>Binding builtins and lambda\<close>

text \<open>The message of \<^verbatim>\<open>LASSERT_TYPE(func, args, index, expect)\<close>.\<close>

definition lassert_type_err :: "string \<Rightarrow> nat \<Rightarrow> lval \<Rightarrow> lval \<Rightarrow> lval" where
  "lassert_type_err func index got expect =
     lval_err (''Function '' @ [CHR 0x27] @ func @ [CHR 0x27] @
               '' passed incorrect type for argument '' @ fmt_i (int index) @
               ''. Got '' @ ltype_name got @ '', Expected '' @ ltype_name expect @ ''.'')"

text \<open>The first cell that is not \<^verbatim>\<open>LVAL_SYM\<close>, as the checking loops find it.\<close>

fun first_non_symbol :: "lval list \<Rightarrow> lval option" where
  "first_non_symbol [] = None"
| "first_non_symbol (Sym s # cell) = first_non_symbol cell"
| "first_non_symbol (c # cell) = Some c"

definition lval_lambda :: "lval \<Rightarrow> lval \<Rightarrow> lval" where
  "lval_lambda formals body = Lambda [] formals body"

definition builtin_lambda :: "lval list \<Rightarrow> fault + lval" where
  "builtin_lambda a =
     (if length a = 2 then
        (case a ! 0 of
           Qexpr fs \<Rightarrow>
             (case a ! 1 of
                Qexpr bs \<Rightarrow>
                  (case first_non_symbol fs of
                     Some c \<Rightarrow>
                       Inr (lval_err (''Cannot define non-symbol. Got '' @ ltype_name c @
                                      '', Expected '' @ ltype_name (Sym []) @ ''.''))
                   | None \<Rightarrow> Inr (lval_lambda (Qexpr fs) (Qexpr bs)))
              | c1 \<Rightarrow> Inr (lassert_type_err [CHR 0x5C] 1 c1 (Qexpr [])))
         | c0 \<Rightarrow> Inr (lassert_type_err [CHR 0x5C] 0 c0 (Qexpr [])))
      else Inr (lval_err (''Function '' @ [CHR 0x27, CHR 0x5C, CHR 0x27] @
                          '' passed incorrect number of arguments. Got '' @
                          fmt_i (int (length a)) @ '', Expected '' @ fmt_i 2 @ ''.'')))"

text \<open>The binding loop of \<^verbatim>\<open>builtin_var\<close> over \<^verbatim>\<open>syms->cell[i]\<close> and \<^verbatim>\<open>a->cell[i+1]\<close>.\<close>

fun builtin_var_loop ::
  "platform \<Rightarrow> string \<Rightarrow> lenv \<Rightarrow> lval list \<Rightarrow> lval list \<Rightarrow> fault + lenv" where
  "builtin_var_loop pf func e [] vals = Inr e"
| "builtin_var_loop pf func e (Sym s # syms) (v # vals) =
     builtin_var_loop pf func
       (let e1 = (if func = ''def'' then lenv_def pf e s v else e)
        in (if func = ''='' then lenv_put pf e1 s v else e1))
       syms vals"
| "builtin_var_loop pf func e (Sym s # syms) [] = Inl OutOfBounds"
| "builtin_var_loop pf func e (c # syms) vals = Inl BadField"

definition builtin_var :: "platform \<Rightarrow> lenv \<Rightarrow> lval list \<Rightarrow> string \<Rightarrow> fault + (lenv \<times> lval)" where
  "builtin_var pf e a func =
     (case a of
        [] \<Rightarrow> Inl OutOfBounds
      | c0 # vals \<Rightarrow>
          (case c0 of
             Qexpr syms \<Rightarrow>
               (case first_non_symbol syms of
                  Some c \<Rightarrow>
                    Inr (e, lval_err (''Function '' @ [CHR 0x27] @ func @ [CHR 0x27] @
                                      '' cannot define non-symbol. Got '' @ ltype_name c @
                                      '', Expected '' @ ltype_name (Sym []) @ ''.''))
                | None \<Rightarrow>
                    (if length syms = length a - 1 then
                       (case builtin_var_loop pf func e syms vals of
                          Inl f \<Rightarrow> Inl f
                        | Inr e' \<Rightarrow> Inr (e', Sexpr []))
                     else
                       Inr (e, lval_err (''Function '' @ [CHR 0x27] @ func @ [CHR 0x27] @
                                         '' passed too many arguments for symbols. Got '' @
                                         fmt_i (int (length syms)) @ '', Expected '' @
                                         fmt_i (int (length a) - 1) @ ''.''))))
           | _ \<Rightarrow> Inr (e, lassert_type_err func 0 c0 (Qexpr []))))"

section \<open>Function application\<close>

text \<open>
  The binding loop of \<^verbatim>\<open>lval_call\<close> either returns an error from inside the loop or leaves
  the loop with the closure's environment and the formals that are still unbound.
\<close>

datatype binding = Return lval | Bound frame "lval list"

fun call_bind ::
  "platform \<Rightarrow> nat \<Rightarrow> nat \<Rightarrow> frame \<Rightarrow> lval list \<Rightarrow> lval list \<Rightarrow> fault + binding" where
  "call_bind pf given tot fenv formals [] = Inr (Bound fenv formals)"
| "call_bind pf given tot fenv [] (v # a) =
     Inr (Return (lval_err (''Function passed too many arguments. Got '' @
                            fmt_i (int given) @ '', Expected '' @ fmt_i (int tot) @ ''.'')))"
| "call_bind pf given tot fenv (Sym s # formals) (v # a) =
     (if s = ''&'' then
        (if length formals = 1 then
           (case formals of
              [Sym nsym] \<Rightarrow> Inr (Bound (frame_put pf fenv nsym (Qexpr (v # a))) [])
            | _ \<Rightarrow> Inl BadField)
         else Inr (Return (lval_err (''Function format invalid. '' @
                                     ''Symbol '' @ [CHR 0x27] @ ''&'' @ [CHR 0x27] @
                                     '' not followed by single symbol.''))))
      else call_bind pf given tot (frame_put pf fenv s v) formals a)"
| "call_bind pf given tot fenv (c # formals) (v # a) = Inl BadField"

text \<open>After the loop: a remaining \<^verbatim>\<open>&\<close> with exactly one symbol behind it binds that symbol to \<open>{}\<close>.\<close>

fun call_rest :: "platform \<Rightarrow> frame \<Rightarrow> lval list \<Rightarrow> fault + binding" where
  "call_rest pf fenv [] = Inr (Bound fenv [])"
| "call_rest pf fenv (Sym s # formals) =
     (if s = ''&'' then
        (if length (Sym s # formals) = 2 then
           (case formals of
              [Sym nsym] \<Rightarrow> Inr (Bound (frame_put pf fenv nsym (Qexpr [])) [])
            | _ \<Rightarrow> Inl BadField)
         else Inr (Return (lval_err (''Function format invalid. '' @
                                     ''Symbol '' @ [CHR 0x27] @ ''&'' @ [CHR 0x27] @
                                     '' not followed by single symbol.''))))
      else Inr (Bound fenv (Sym s # formals)))"
| "call_rest pf fenv (c # formals) = Inl BadField"

text \<open>The binding phase of \<^verbatim>\<open>lval_call\<close>: the loop, then the block for a remaining \<^verbatim>\<open>&\<close>.\<close>

definition call_formals ::
  "platform \<Rightarrow> nat \<Rightarrow> nat \<Rightarrow> frame \<Rightarrow> lval list \<Rightarrow> lval list \<Rightarrow> fault + binding" where
  "call_formals pf given tot fenv formals a =
     (case call_bind pf given tot fenv formals a of
        Inl flt \<Rightarrow> Inl flt
      | Inr (Return err) \<Rightarrow> Inr (Return err)
      | Inr (Bound fenv1 formals1) \<Rightarrow> call_rest pf fenv1 formals1)"

section \<open>The evaluator\<close>

fun first_error :: "lval list \<Rightarrow> lval option" where
  "first_error [] = None"
| "first_error (Err m # cell) = Some (Err m)"
| "first_error (c # cell) = first_error cell"

fun is_fun :: "lval \<Rightarrow> bool" where
  "is_fun (Builtin b) = True"
| "is_fun (Lambda fenv formals body) = True"
| "is_fun v = False"

text \<open>
  \<^verbatim>\<open>lval_eval\<close>, \<^verbatim>\<open>lval_eval_sexpr\<close>, \<^verbatim>\<open>lval_call\<close> and \<^verbatim>\<open>builtin_eval\<close> call each other, and
  a program of the language can make them recurse for ever. The natural number bounds
  the depth of nested \<^verbatim>\<open>lval_eval\<close> activations; \<open>Inl OutOfFuel\<close> says the bound was too
  small. Each function returns the environment chain after its writes together with
  its value. \<open>eval_cells\<close> is the first loop of \<^verbatim>\<open>lval_eval_sexpr\<close>, \<open>call_builtin\<close> is the
  call through the function pointer \<^verbatim>\<open>f->builtin(e, a)\<close>.
\<close>

function lval_eval :: "platform \<Rightarrow> nat \<Rightarrow> lenv \<Rightarrow> lval \<Rightarrow> fault + (lenv \<times> lval)"
  and eval_cells :: "platform \<Rightarrow> nat \<Rightarrow> lenv \<Rightarrow> lval list \<Rightarrow> fault + (lenv \<times> lval list)"
  and lval_eval_sexpr :: "platform \<Rightarrow> nat \<Rightarrow> lenv \<Rightarrow> lval list \<Rightarrow> fault + (lenv \<times> lval)"
  and lval_call :: "platform \<Rightarrow> nat \<Rightarrow> lenv \<Rightarrow> lval \<Rightarrow> lval list \<Rightarrow> fault + (lenv \<times> lval)"
  and call_builtin :: "platform \<Rightarrow> nat \<Rightarrow> lenv \<Rightarrow> builtin \<Rightarrow> lval list \<Rightarrow> fault + (lenv \<times> lval)"
  and builtin_eval :: "platform \<Rightarrow> nat \<Rightarrow> lenv \<Rightarrow> lval list \<Rightarrow> fault + (lenv \<times> lval)"
where
  "lval_eval pf 0 e v = Inl OutOfFuel"
| "lval_eval pf (Suc n) e v =
     (case v of
        Sym s \<Rightarrow> Inr (e, lenv_get pf e s)
      | Sexpr cell \<Rightarrow> lval_eval_sexpr pf n e cell
      | _ \<Rightarrow> Inr (e, v))"
| "eval_cells pf n e [] = Inr (e, [])"
| "eval_cells pf n e (c # cell) =
     (case lval_eval pf n e c of
        Inl f \<Rightarrow> Inl f
      | Inr (e1, c') \<Rightarrow>
          (case eval_cells pf n e1 cell of
             Inl f \<Rightarrow> Inl f
           | Inr (e2, cell') \<Rightarrow> Inr (e2, c' # cell')))"
| "lval_eval_sexpr pf n e cell =
     (case eval_cells pf n e cell of
        Inl f \<Rightarrow> Inl f
      | Inr (e1, v) \<Rightarrow>
          (case first_error v of
             Some err \<Rightarrow> Inr (e1, err)
           | None \<Rightarrow>
               (if length v = 0 then Inr (e1, Sexpr v)
                else if length v = 1 then
                  (case lval_take v 0 of Inl f \<Rightarrow> Inl f | Inr x \<Rightarrow> Inr (e1, x))
                else
                  (case lval_pop v 0 of
                     Inl f \<Rightarrow> Inl f
                   | Inr (f, a) \<Rightarrow>
                       (if is_fun f then lval_call pf n e1 f a
                        else Inr (e1, lval_err (''S-Expression starts with incorrect type. '' @
                                                ''Got '' @ ltype_name f @ '', Expected '' @
                                                ltype_name (Builtin B_list) @ ''.'')))))))"
| "lval_call pf n e f a =
     (case f of
        Builtin b \<Rightarrow> call_builtin pf n e b a
      | Lambda fenv formals body \<Rightarrow>
          (case formals of
             Qexpr fs \<Rightarrow>
               (case call_formals pf (length a) (length fs) fenv fs a of
                  Inl flt \<Rightarrow> Inl flt
                | Inr (Return err) \<Rightarrow> Inr (e, err)
                | Inr (Bound fenv2 fs2) \<Rightarrow>
                    (if length fs2 = 0 then
                       (case builtin_eval pf n (Lenv fenv2 (Some e)) [lval_copy pf body] of
                          Inl flt \<Rightarrow> Inl flt
                        | Inr (Lenv fenv3 (Some e'), r) \<Rightarrow> Inr (e', r)
                        | Inr (Lenv fenv3 None, r) \<Rightarrow> Inl BadField)
                     else Inr (e, lval_copy pf (Lambda fenv2 (Qexpr fs2) body))))
           | _ \<Rightarrow> Inl BadField)
      | _ \<Rightarrow> Inl BadField)"
| "call_builtin pf n e B_eval a = builtin_eval pf n e a"
| "call_builtin pf n e B_def a = builtin_var pf e a ''def''"
| "call_builtin pf n e B_put a = builtin_var pf e a ''=''"
| "call_builtin pf n e B_list a = Inr (e, Qexpr a)"
| "call_builtin pf n e B_head a = map_sum id (Pair e) (builtin_head a)"
| "call_builtin pf n e B_tail a = map_sum id (Pair e) (builtin_tail a)"
| "call_builtin pf n e B_join a = map_sum id (Pair e) (builtin_join a)"
| "call_builtin pf n e B_cons a = map_sum id (Pair e) (builtin_cons a)"
| "call_builtin pf n e B_len a = map_sum id (Pair e) (builtin_len a)"
| "call_builtin pf n e B_init a = map_sum id (Pair e) (builtin_init a)"
| "call_builtin pf n e B_lambda a = map_sum id (Pair e) (builtin_lambda a)"
| "call_builtin pf n e B_add a = map_sum id (Pair e) (builtin_op pf a ''+'')"
| "call_builtin pf n e B_sub a = map_sum id (Pair e) (builtin_op pf a ''-'')"
| "call_builtin pf n e B_mul a = map_sum id (Pair e) (builtin_op pf a ''*'')"
| "call_builtin pf n e B_div a = map_sum id (Pair e) (builtin_op pf a ''/'')"
| "call_builtin pf n e B_mod a = map_sum id (Pair e) (builtin_op pf a ''%'')"
| "call_builtin pf n e B_pow a = map_sum id (Pair e) (builtin_op pf a ''^'')"
| "call_builtin pf n e B_min a = map_sum id (Pair e) (builtin_op pf a ''min'')"
| "call_builtin pf n e B_max a = map_sum id (Pair e) (builtin_op pf a ''max'')"
| "builtin_eval pf n e a =
     (if length a = 1 then
        (case a ! 0 of
           Qexpr cell \<Rightarrow>
             (case lval_take a 0 of
                Inr (Qexpr x) \<Rightarrow> lval_eval pf n e (Sexpr x)
              | Inr _ \<Rightarrow> Inl BadField
              | Inl f \<Rightarrow> Inl f)
         | _ \<Rightarrow> Inr (e, lval_err ''Function 'eval' passed incorrect type!''))
      else Inr (e, lval_err ''Function 'eval' passed too many arguments!''))"
  by pat_completeness auto
termination
  apply (relation "inv_image (less_than <*lex*> less_than)
     (\<lambda>x. case x of
         Inl (Inl (pf, n, e, v)) \<Rightarrow> (n, 0)
       | Inl (Inr (Inl (pf, n, e, cell))) \<Rightarrow> (n, 4 + length cell)
       | Inl (Inr (Inr (pf, n, e, cell))) \<Rightarrow> (n, 5 + length cell)
       | Inr (Inl (pf, n, e, f, a)) \<Rightarrow> (n, 3)
       | Inr (Inr (Inl (pf, n, e, b, a))) \<Rightarrow> (n, 2)
       | Inr (Inr (Inr (pf, n, e, a))) \<Rightarrow> (n, 1))")
    apply (rule wf_inv_image, rule wf_lex_prod, rule wf_less_than, rule wf_less_than)
    apply simp_all
  done

declare lval_eval_sexpr.simps [simp del]
declare lval_call.simps [simp del]
declare builtin_eval.simps [simp del]

text \<open>The global environment of the read-eval-print loop: \<^verbatim>\<open>lenv_new\<close>, then \<^verbatim>\<open>lenv_add_builtins\<close>.\<close>

definition global_env :: "platform \<Rightarrow> lenv" where
  "global_env pf = lenv_add_builtins pf lenv_new"

section \<open>Notions used in the statements\<close>

text \<open>
  The reference for the integer power, written from the words of the specification:
  iterative multiplication of \<open>b\<close> with itself, \<open>e\<close> times, in \<^verbatim>\<open>long\<close> arithmetic.
\<close>

fun iter_mult :: "long \<Rightarrow> nat \<Rightarrow> long" where
  "iter_mult b 0 = 1"
| "iter_mult b (Suc e) = iter_mult b e * b"

text \<open>Values that contain no \<^verbatim>\<open>LVAL_FLOAT\<close>, at any depth.\<close>

fun float_free :: "lval \<Rightarrow> bool"
  and frame_float_free :: "frame \<Rightarrow> bool" where
  "float_free (Flt d) = False"
| "float_free (Num n) = True"
| "float_free (Err m) = True"
| "float_free (Sym s) = True"
| "float_free (Builtin b) = True"
| "float_free (Sexpr cell) = list_all float_free cell"
| "float_free (Qexpr cell) = list_all float_free cell"
| "float_free (Lambda env formals body) =
     (frame_float_free env \<and> float_free formals \<and> float_free body)"
| "frame_float_free [] = True"
| "frame_float_free (b # env) = (float_free (snd b) \<and> frame_float_free env)"

text \<open>
  The environment of a closure after its leading formals have been bound, one
  \<^verbatim>\<open>lenv_put\<close> per formal and argument, in order.
\<close>

fun bind_args :: "platform \<Rightarrow> frame \<Rightarrow> string list \<Rightarrow> lval list \<Rightarrow> frame" where
  "bind_args pf fenv (p # ps) (v # a) = bind_args pf (frame_put pf fenv p v) ps a"
| "bind_args pf fenv ps a = fenv"

fun is_err :: "lval \<Rightarrow> bool" where
  "is_err (Err m) = True"
| "is_err v = False"

text \<open>
  A platform for closed statements. Its floating-point unit computes nothing; the closed
  statements below contain no Float.
\<close>

definition null_platform :: platform where
  "null_platform =
     \<lparr>d_of_long = (\<lambda>n. 0), d_neg = (\<lambda>d. 0), d_add = (\<lambda>a b. 0), d_sub = (\<lambda>a b. 0),
      d_mul = (\<lambda>a b. 0), d_div = (\<lambda>a b. 0), d_fmod = (\<lambda>a b. 0), d_pow = (\<lambda>a b. 0),
      d_gt = (\<lambda>a b. False), uninit = 0\<rparr>"

section \<open>Auxiliary facts\<close>

lemma global_env_eq:
  "global_env pf = Lenv
       [(''list'', Builtin B_list), (''head'', Builtin B_head),
        (''tail'', Builtin B_tail), (''eval'', Builtin B_eval),
        (''join'', Builtin B_join), (''cons'', Builtin B_cons),
        (''len'', Builtin B_len), (''init'', Builtin B_init),
        ([CHR 0x5C], Builtin B_lambda), (''def'', Builtin B_def),
        (''='', Builtin B_put), (''+'', Builtin B_add),
        (''-'', Builtin B_sub), (''*'', Builtin B_mul),
        (''/'', Builtin B_div), (''%'', Builtin B_mod),
        (''^'', Builtin B_pow), (''min'', Builtin B_min),
        (''max'', Builtin B_max)] None"
  by (simp add: global_env_def lenv_add_builtins_def lenv_add_builtin_def lenv_new_def)

lemma lval_pop_0: "lval_pop (c # cell) 0 = Inr (c, cell)"
  by (simp add: lval_pop_def)

lemma lval_take_0: "lval_take (c # cell) 0 = Inr c"
  by (simp add: lval_take_def lval_pop_0)

lemma fuel3: "3 + n = Suc (Suc (Suc n))"
  by simp

lemma fuel4: "4 + n = Suc (Suc (Suc (Suc n)))"
  by simp

lemmas eval_simps = fuel3 fuel4 global_env_eq lval_eval_sexpr.simps lval_call.simps
  builtin_eval.simps lval_pop_0 lval_take_0

lemma head_loop_Cons: "head_loop (c # cell) = [c]"
  by (induction cell) simp_all

text \<open>The squaring loop multiplies the accumulator by the power of the base.\<close>

lemma ipow_loop_eq: "0 \<le> e \<Longrightarrow> ipow_loop r b e = r * b ^ nat e"
proof (induction r b e rule: ipow_loop.induct)
  case (1 res base exp)
  show ?case
  proof (cases "exp > 0")
    case False
    with 1 show ?thesis by (simp add: ipow_loop.simps)
  next
    case True
    have e2: "nat exp = 2 * nat (exp div 2) + (if exp mod 2 = 1 then 1 else 0)"
    proof -
      have "int (2 * nat (exp div 2) + (if exp mod 2 = 1 then 1 else 0)) = exp"
        using True by (simp split: if_splits) presburger
      then show ?thesis by linarith
    qed
    have ih: "ipow_loop (if exp mod 2 = 1 then res * base else res) (base * base) (exp div 2)
            = (if exp mod 2 = 1 then res * base else res) * (base * base) ^ nat (exp div 2)"
      using 1(1)[OF True] True by simp
    have "ipow_loop res base exp =
            (if exp mod 2 = 1 then res * base else res) * (base * base) ^ nat (exp div 2)"
      using True ih by (subst ipow_loop.simps) simp
    also have "\<dots> = res * base ^ nat exp"
      by (subst e2)
         (simp add: power_add power_mult power2_eq_square mult.assoc power_mult_distrib
                    algebra_simps)
    finally show ?thesis .
  qed
qed

lemma iter_mult_power: "iter_mult b e = b ^ e"
  by (induction e) (simp_all add: mult.commute)

lemma int_of_long_small:
  assumes e: "0 \<le> e" "e < 2 ^ 31"
  shows "int_of_long (word_of_int e) = e"
proof -
  from e have "e < 2 ^ 64" by (rule_tac less_trans [of _ "2 ^ 31"]) simp_all
  with e have u: "(ucast (word_of_int e :: 64 word) :: 32 word) = word_of_int e"
    by (simp add: unsigned_of_int take_bit_int_eq_self)
  have "sint (word_of_int e :: 32 word) = e"
    using e by (simp add: signed_of_int signed_take_bit_int_eq_self)
  with u show ?thesis by (simp add: int_of_long_def)
qed

lemma sint_count:
  assumes "k < 2 ^ 31"
  shows "sint (of_nat k :: long) = int k"
proof -
  from assms have "int k < 2 ^ 31" by (metis of_nat_less_iff of_nat_numeral of_nat_power)
  then have "int k < 2 ^ 63" by (rule less_trans) simp
  then show ?thesis
    by (simp add: signed_of_nat signed_take_bit_int_eq_self)
qed

lemma lval_copy_float_free_aux:
  shows "float_free v \<longrightarrow> lval_copy pf v = v"
    and "frame_float_free env \<longrightarrow> lenv_copy pf env = env"
  by (induction pf v and pf env rule: lval_copy_lenv_copy.induct)
     (simp_all add: list_all_iff map_idI)

lemma lval_copy_float_free: "float_free v \<Longrightarrow> lval_copy pf v = v"
  using lval_copy_float_free_aux(1) by blast

lemma call_bind_prefix:
  "length a \<le> length ps \<Longrightarrow> ''&'' \<notin> set (take (length a) ps) \<Longrightarrow>
   call_bind pf g t fenv (map Sym ps) a =
     Inr (Bound (bind_args pf fenv ps a) (map Sym (drop (length a) ps)))"
proof (induction ps arbitrary: fenv a)
  case Nil
  then show ?case by simp
next
  case (Cons p ps)
  show ?case
  proof (cases a)
    case Nil
    then show ?thesis by simp
  next
    case (Cons v a')
    with Cons.prems
    have "p \<noteq> ''&''" "length a' \<le> length ps" "''&'' \<notin> set (take (length a') ps)"
      by auto
    with Cons.IH [of a' "frame_put pf fenv p v"] Cons show ?thesis by simp
  qed
qed

lemma call_formals_partial:
  assumes "length a < length ps" and "''&'' \<notin> set (take (Suc (length a)) ps)"
  shows "call_formals pf g t fenv (map Sym ps) a =
           Inr (Bound (bind_args pf fenv ps a) (map Sym (drop (length a) ps)))"
proof -
  from assms have le: "length a \<le> length ps" and pre: "''&'' \<notin> set (take (length a) ps)"
    by (auto simp: take_Suc_conv_app_nth)
  from assms have nth: "ps ! length a \<noteq> ''&''"
    by (auto simp: take_Suc_conv_app_nth)
  from assms have dr: "drop (length a) ps = ps ! length a # drop (Suc (length a)) ps"
    by (simp add: Cons_nth_drop_Suc)
  show ?thesis
    unfolding call_formals_def call_bind_prefix [OF le pre]
    by (simp add: dr nth)
qed

lemma call_formals_variadic:
  "length as = length ps \<Longrightarrow> ''&'' \<notin> set ps \<Longrightarrow>
   call_formals pf g t fenv (map Sym ps @ [Sym ''&'', Sym r]) (as @ rest) =
     Inr (Bound (frame_put pf (bind_args pf fenv ps as) r (Qexpr rest)) [])"
proof (induction ps arbitrary: fenv as)
  case Nil
  then show ?case by (cases rest) (simp_all add: call_formals_def)
next
  case (Cons p ps)
  then obtain v as' where as: "as = v # as'" by (cases as) auto
  with Cons.prems have "p \<noteq> ''&''" "length as' = length ps" "''&'' \<notin> set ps" by auto
  with Cons.IH [of as' "frame_put pf fenv p v"] as show ?case
    by (simp add: call_formals_def)
qed

lemma call_bind_consumed:
  "''&'' \<in> set (take (length a) ps) \<or> length ps < length a \<Longrightarrow>
   (\<exists>err. call_bind pf g t fenv (map Sym ps) a = Inr (Return err)) \<or>
   (\<exists>fenv2. call_bind pf g t fenv (map Sym ps) a = Inr (Bound fenv2 []))"
proof (induction ps arbitrary: fenv a)
  case Nil
  then obtain v a' where "a = v # a'" by (cases a) auto
  then show ?case by simp
next
  case (Cons p ps)
  from Cons.prems obtain v a' where a: "a = v # a'" by (cases a) auto
  show ?case
  proof (cases "p = ''&''")
    case True
    show ?thesis
    proof (cases "length ps = 1")
      case True
      then obtain q where "ps = [q]" by (cases ps) auto
      with \<open>p = ''&''\<close> a show ?thesis by simp
    next
      case False
      with \<open>p = ''&''\<close> a show ?thesis by simp
    qed
  next
    case False
    with Cons.prems a have "''&'' \<in> set (take (length a') ps) \<or> length ps < length a'"
      by auto
    from Cons.IH [OF this, of "frame_put pf fenv p v"] False a show ?thesis by simp
  qed
qed

lemma call_rest_amp:
  "(\<exists>err. call_rest pf fenv (map Sym (''&'' # ps)) = Inr (Return err)) \<or>
   (\<exists>fenv2. call_rest pf fenv (map Sym (''&'' # ps)) = Inr (Bound fenv2 []))"
proof (cases "length ps = 1")
  case True
  then obtain q where "ps = [q]" by (cases ps) auto
  then show ?thesis by simp
next
  case False
  then show ?thesis by simp
qed

lemma call_formals_remaining_iff:
  "(\<exists>fenv2 fs2. call_formals pf g t fenv (map Sym ps) a = Inr (Bound fenv2 fs2) \<and> fs2 \<noteq> [])
   \<longleftrightarrow> (length a < length ps \<and> ''&'' \<notin> set (take (Suc (length a)) ps))"
proof
  assume r: "length a < length ps \<and> ''&'' \<notin> set (take (Suc (length a)) ps)"
  then have "call_formals pf g t fenv (map Sym ps) a =
           Inr (Bound (bind_args pf fenv ps a) (map Sym (drop (length a) ps)))"
    by (simp add: call_formals_partial)
  moreover from r have "map Sym (drop (length a) ps) \<noteq> []" by simp
  ultimately
  show "\<exists>fenv2 fs2. call_formals pf g t fenv (map Sym ps) a = Inr (Bound fenv2 fs2) \<and>
                      fs2 \<noteq> []"
    by blast
next
  assume l: "\<exists>fenv2 fs2. call_formals pf g t fenv (map Sym ps) a = Inr (Bound fenv2 fs2) \<and>
                         fs2 \<noteq> []"
  show "length a < length ps \<and> ''&'' \<notin> set (take (Suc (length a)) ps)"
  proof (rule ccontr)
    assume n: "\<not> (length a < length ps \<and> ''&'' \<notin> set (take (Suc (length a)) ps))"
    show False
    proof (cases "''&'' \<in> set (take (length a) ps) \<or> length ps < length a")
      case True
      from call_bind_consumed [OF True, of pf g t fenv] l show False
        by (auto simp: call_formals_def)
    next
      case False
      then have le: "length a \<le> length ps" and pre: "''&'' \<notin> set (take (length a) ps)" by auto
      note cb = call_bind_prefix [OF le pre, of pf g t fenv]
      show False
      proof (cases "length a = length ps")
        case True
        with cb l show False by (simp add: call_formals_def)
      next
        case False
        with le have lt: "length a < length ps" by simp
        with n pre have "ps ! length a = ''&''"
          by (auto simp: take_Suc_conv_app_nth)
        with lt have "drop (length a) ps = ''&'' # drop (Suc (length a)) ps"
          by (metis Cons_nth_drop_Suc)
        with cb call_rest_amp [of pf "bind_args pf fenv ps a" "drop (Suc (length a)) ps"] l
        show False by (auto simp: call_formals_def)
      qed
    qed
  qed
qed

lemma frame_get_put: "frame_get (frame_put pf fenv k v) k = Some (lval_copy pf v)"
  by (induction fenv) auto

lemma frame_put_float_free:
  "float_free v \<Longrightarrow> frame_float_free fenv \<Longrightarrow> frame_float_free (frame_put pf fenv k v)"
  by (induction fenv) (auto simp: lval_copy_float_free)

lemma bind_args_float_free:
  "frame_float_free fenv \<Longrightarrow> list_all float_free a \<Longrightarrow>
   frame_float_free (bind_args pf fenv ps a)"
  by (induction pf fenv ps a rule: bind_args.induct) (auto simp: frame_put_float_free)

lemma float_free_syms: "list_all float_free (map Sym xs)"
  by (induction xs) auto

lemma lval_call_partial_copy:
  assumes "length a < length ps" and "''&'' \<notin> set (take (Suc (length a)) ps)"
  shows "lval_call pf n e (Lambda fenv (Qexpr (map Sym ps)) body) a =
           Inr (e, lval_copy pf (Lambda (bind_args pf fenv ps a)
                                        (Qexpr (map Sym (drop (length a) ps))) body))"
  unfolding lval_call.simps [of pf n e _ a]
  using assms(1) by (simp add: call_formals_partial [OF assms])

lemma first_error_least:
  "i < length v \<Longrightarrow> is_err (v ! i) \<Longrightarrow> \<forall>j<i. \<not> is_err (v ! j) \<Longrightarrow>
   first_error v = Some (v ! i)"
proof (induction v arbitrary: i)
  case Nil
  then show ?case by simp
next
  case (Cons c v)
  show ?case
  proof (cases i)
    case 0
    with Cons.prems show ?thesis by (cases c) simp_all
  next
    case (Suc k)
    with Cons.prems have "\<not> is_err c" by auto
    moreover from Suc Cons.prems have "first_error v = Some (v ! k)"
      by (intro Cons.IH) auto
    ultimately show ?thesis using Suc by (cases c) simp_all
  qed
qed

section \<open>The claims\<close>

subsection \<open>C1: the kind of a mixed Integer/Float result\<close>

text \<open>
  C1 says that an arithmetic builtin applied to one Integer and one Float yields a Float,
  so that \<^verbatim>\<open>(+ 1 2.0)\<close> is the Float 3.0 and \<^verbatim>\<open>(+ 1 2)\<close> the Integer 3. What the code
  computes: with the Integer first and the Float second, the result keeps the tag
  \<^verbatim>\<open>LVAL_NUM\<close> and its \<^verbatim>\<open>long\<close> payload is the bit pattern of the double that was
  computed; with the Float first the result is a Float. For every platform, and through
  the evaluator with any depth bound of at least 3 in the global environment:
  \<^verbatim>\<open>(+ 1 d)\<close> for a Float \<open>d\<close> is an Integer, \<^verbatim>\<open>(+ 1 2)\<close> is the Integer 3.
\<close>

theorem builtin_op_mixed_kind:
  "builtin_op pf [Num a, Flt d] op =
      Inr (case double_arith pf op (d_of_long pf a) d of Some w \<Rightarrow> Num w | None \<Rightarrow> Num a)
   \<and> builtin_op pf [Flt d, Num a] op =
      Inr (case double_arith pf op d (d_of_long pf a) of Some w \<Rightarrow> Flt w | None \<Rightarrow> Flt d)
   \<and> lval_eval pf (3 + n) (global_env pf) (Sexpr [Sym ''+'', Num 1, Flt d]) =
      Inr (global_env pf, Num (d_add pf (d_of_long pf 1) d))
   \<and> lval_eval pf (3 + n) (global_env pf) (Sexpr [Sym ''+'', Num 1, Num 2]) =
      Inr (global_env pf, Num 3)"
proof -
  have 1: "builtin_op pf [Num a, Flt d] op =
      Inr (case double_arith pf op (d_of_long pf a) d of Some w \<Rightarrow> Num w | None \<Rightarrow> Num a)"
    by (simp add: builtin_op_def lval_pop_0 split: option.splits)
  have 2: "builtin_op pf [Flt d, Num a] op =
      Inr (case double_arith pf op d (d_of_long pf a) of Some w \<Rightarrow> Flt w | None \<Rightarrow> Flt d)"
    by (simp add: builtin_op_def lval_pop_0 split: option.splits)
  have 3: "lval_eval pf (3 + n) (global_env pf) (Sexpr [Sym ''+'', Num 1, Flt d]) =
      Inr (global_env pf, Num (d_add pf (d_of_long pf 1) d))"
    by (simp add: eval_simps builtin_op_def double_arith_def)
  have 4: "lval_eval pf (3 + n) (global_env pf) (Sexpr [Sym ''+'', Num 1, Num 2]) =
      Inr (global_env pf, Num 3)"
    by (simp add: eval_simps builtin_op_def long_arith_def)
  from 1 2 3 4 show ?thesis by blast
qed

subsection \<open>C2: copying a value\<close>

text \<open>
  C2 says that \<^verbatim>\<open>lval_copy\<close> returns a value equal to its argument, for every kind. What
  the code computes: the copy of a Float carries the tag and whatever the fresh
  allocation contained, not the number; a value without Float at any depth is copied
  to an equal value. The third part shows the effect on a program: after
  \<^verbatim>\<open>(def {x} d)\<close> for a Float \<open>d\<close>, the symbol \<open>x\<close> evaluates to a Float with the
  uninitialised payload.
\<close>

theorem lval_copy_payload:
  "lval_copy pf (Flt d) = Flt (uninit pf)
   \<and> (float_free v \<longrightarrow> lval_copy pf v = v)
   \<and> lval_eval pf (4 + n) (global_env pf)
        (Sexpr [Sym ''list'', Sexpr [Sym ''def'', Qexpr [Sym ''x''], Flt d], Sym ''x'']) =
      Inr (lenv_put pf (global_env pf) ''x'' (Flt d), Qexpr [Sexpr [], Flt (uninit pf)])"
proof -
  have 3: "lval_eval pf (4 + n) (global_env pf)
        (Sexpr [Sym ''list'', Sexpr [Sym ''def'', Qexpr [Sym ''x''], Flt d], Sym ''x'']) =
      Inr (lenv_put pf (global_env pf) ''x'' (Flt d), Qexpr [Sexpr [], Flt (uninit pf)])"
    by (simp add: eval_simps builtin_var_def)
  with lval_copy_float_free [of v pf] show ?thesis by simp
qed

theorem lval_copy_payload_witness:
  "float_free (Qexpr [Num 1, Sym ''a'', Sexpr [Err ''e'']])
   \<and> lval_copy null_platform (Qexpr [Num 1, Sym ''a'', Sexpr [Err ''e'']]) =
       Qexpr [Num 1, Sym ''a'', Sexpr [Err ''e'']]
   \<and> lval_copy null_platform (Flt 5) = Flt 0"
  using lval_copy_payload [of null_platform 5 "Qexpr [Num 1, Sym ''a'', Sexpr [Err ''e'']]" 0]
  by (simp add: null_platform_def)

subsection \<open>C3: the length of a list\<close>

text \<open>
  C3 says that \<^verbatim>\<open>len {}\<close> is the Integer 0 and that \<^verbatim>\<open>len q\<close> is the number of elements
  of \<open>q\<close> for every QExpr. \<^verbatim>\<open>builtin_len\<close> has the same three guards as \<^verbatim>\<open>head\<close>, \<^verbatim>\<open>tail\<close>
  and \<^verbatim>\<open>init\<close>; the third rejects the empty list. Applied to \<open>{}\<close>, alone or through the
  evaluator, it returns the Error of that guard.
\<close>

theorem builtin_len_empty_counterexample:
  "builtin_len [Qexpr []] = Inr (Err ''Function 'len' passed {}!'')
   \<and> lval_eval null_platform 3 (global_env null_platform) (Sexpr [Sym ''len'', Qexpr []]) =
       Inr (global_env null_platform, Err ''Function 'len' passed {}!'')"
proof -
  have "lval_eval null_platform (Suc (Suc (Suc 0))) (global_env null_platform)
          (Sexpr [Sym ''len'', Qexpr []]) =
       Inr (global_env null_platform, Err ''Function 'len' passed {}!'')"
    by (simp add: eval_simps builtin_len_def lval_err_def)
  then show ?thesis by (simp add: numeral_3_eq_3 builtin_len_def lval_err_def)
qed

text \<open>
  C3 as the code has it: for every non-empty QExpr \<open>q\<close> (of a length that the \<^verbatim>\<open>int\<close>
  field \<^verbatim>\<open>count\<close> can hold), \<^verbatim>\<open>len q\<close> is the Integer whose value is the number of
  elements of \<open>q\<close>, also through the evaluator; \<^verbatim>\<open>len {}\<close> is the Error
  "Function 'len' passed {}!".
\<close>

theorem builtin_len_nonempty:
  assumes "q \<noteq> []" and "length q < 2 ^ 31"
  shows "builtin_len [Qexpr q] = Inr (Num (of_nat (length q)))
       \<and> sint (of_nat (length q) :: long) = int (length q)
       \<and> lval_eval pf (3 + n) (global_env pf) (Sexpr [Sym ''len'', Qexpr q]) =
           Inr (global_env pf, Num (of_nat (length q)))
       \<and> builtin_len [Qexpr []] = Inr (Err ''Function 'len' passed {}!'')"
proof -
  from assms(1) obtain c cell where q: "q = c # cell" by (cases q) auto
  have 1: "builtin_len [Qexpr q] = Inr (Num (of_nat (length q)))"
    unfolding q by (simp add: builtin_len_def lval_take_0)
  have 2: "lval_eval pf (3 + n) (global_env pf) (Sexpr [Sym ''len'', Qexpr q]) =
           Inr (global_env pf, Num (of_nat (length q)))"
    unfolding q by (simp add: eval_simps builtin_len_def)
  have 3: "builtin_len [Qexpr []] = Inr (Err ''Function 'len' passed {}!'')"
    by (simp add: builtin_len_def lval_err_def)
  from 1 2 3 sint_count [OF assms(2)] show ?thesis by blast
qed

theorem builtin_len_nonempty_witness:
  "[Num 7, Sym ''a''] \<noteq> [] \<and> length [Num 7, Sym ''a''] < 2 ^ 31
   \<and> builtin_len [Qexpr [Num 7, Sym ''a'']] = Inr (Num 2)"
  using builtin_len_nonempty [of "[Num 7, Sym ''a'']" null_platform 0]
  by simp

subsection \<open>C4: partial native operations\<close>

text \<open>
  C4 says that evaluation never ends abnormally, in particular that \<^verbatim>\<open>(% a 0)\<close> returns a
  value for every Integer \<open>a\<close> and that \<^verbatim>\<open>init\<close> on a non-empty list uses only indices
  inside its operand. What the code computes: the Integer branch of \<^verbatim>\<open>%\<close> divides
  without the zero test that \<^verbatim>\<open>/\<close> has, so \<^verbatim>\<open>(% a 0)\<close> ends in the division trap for
  every \<open>a\<close>; \<^verbatim>\<open>init\<close> on every non-empty list pops its operand at index \<open>-1\<close>.
\<close>

theorem partial_operations_fault:
  "builtin_op pf [Num a, Num 0] ''%'' = Inl DivideTrap
   \<and> lval_eval pf (3 + n) (global_env pf) (Sexpr [Sym ''%'', Num a, Num 0]) = Inl DivideTrap
   \<and> builtin_init [Qexpr (c # cell)] = Inl OutOfBounds
   \<and> lval_eval pf (3 + n) (global_env pf) (Sexpr [Sym ''init'', Qexpr (c # cell)]) =
       Inl OutOfBounds"
proof -
  have 1: "builtin_op pf [Num a, Num 0] ''%'' = Inl DivideTrap"
    by (simp add: builtin_op_def lval_pop_0 long_arith_def long_rem_def)
  have 2: "builtin_init [Qexpr (c # cell)] = Inl OutOfBounds"
    by (simp add: builtin_init_def lval_pop_0 lval_pop_def)
  have 3: "lval_eval pf (3 + n) (global_env pf) (Sexpr [Sym ''%'', Num a, Num 0]) =
             Inl DivideTrap"
    by (simp add: eval_simps builtin_op_def long_arith_def long_rem_def)
  have 4: "lval_eval pf (3 + n) (global_env pf) (Sexpr [Sym ''init'', Qexpr (c # cell)]) =
             Inl OutOfBounds"
    by (simp add: eval_simps builtin_init_def lval_pop_def)
  from 1 2 3 4 show ?thesis by blast
qed

subsection \<open>C5: Integer division\<close>

text \<open>
  C5 says that \<^verbatim>\<open>(/ a b)\<close> is the Integer quotient, truncated towards zero, for all Integers
  with \<open>b \<noteq> 0\<close>, and that a zero divisor gives the Error "Division By Zero!" and ends
  the reduction. What the code computes: the Error for a zero divisor, whatever operands
  follow; the truncated quotient whenever it is representable; and for the one pair
  \<^verbatim>\<open>LONG_MIN\<close>, \<open>-1\<close>, whose quotient is not representable, the division trap, because
  the only guard before \<^verbatim>\<open>x->num /= y->num\<close> is the zero test.
\<close>

theorem builtin_op_division:
  "(b \<noteq> 0 \<longrightarrow> \<not> (a = LONG_MIN \<and> b = - 1) \<longrightarrow>
      builtin_op pf [Num a, Num b] ''/'' = Inr (Num (word_of_int (sint a sdiv sint b)))
      \<and> lval_eval pf (3 + n) (global_env pf) (Sexpr [Sym ''/'', Num a, Num b]) =
          Inr (global_env pf, Num (word_of_int (sint a sdiv sint b))))
   \<and> (all_numbers rest \<longrightarrow>
      builtin_op pf (Num a # Num 0 # rest) ''/'' = Inr (Err ''Division By Zero!''))
   \<and> lval_eval pf (3 + n) (global_env pf) (Sexpr [Sym ''/'', Num a, Num 0]) =
       Inr (global_env pf, Err ''Division By Zero!'')
   \<and> builtin_op pf [Num LONG_MIN, Num (- 1)] ''/'' = Inl DivideTrap
   \<and> lval_eval pf (3 + n) (global_env pf) (Sexpr [Sym ''/'', Num LONG_MIN, Num (- 1)]) =
       Inl DivideTrap"
proof -
  have 1: "b \<noteq> 0 \<longrightarrow> \<not> (a = LONG_MIN \<and> b = - 1) \<longrightarrow>
      builtin_op pf [Num a, Num b] ''/'' = Inr (Num (word_of_int (sint a sdiv sint b)))"
    by (auto simp add: builtin_op_def lval_pop_0 long_arith_def long_div_def)
  have 2: "b \<noteq> 0 \<longrightarrow> \<not> (a = LONG_MIN \<and> b = - 1) \<longrightarrow>
      lval_eval pf (3 + n) (global_env pf) (Sexpr [Sym ''/'', Num a, Num b]) =
          Inr (global_env pf, Num (word_of_int (sint a sdiv sint b)))"
    by (auto simp add: eval_simps builtin_op_def long_arith_def long_div_def)
  have 3: "all_numbers rest \<longrightarrow>
      builtin_op pf (Num a # Num 0 # rest) ''/'' = Inr (Err ''Division By Zero!'')"
    by (simp add: builtin_op_def lval_pop_0 long_arith_def lval_err_def)
  have 4: "lval_eval pf (3 + n) (global_env pf) (Sexpr [Sym ''/'', Num a, Num 0]) =
       Inr (global_env pf, Err ''Division By Zero!'')"
    by (simp add: eval_simps builtin_op_def long_arith_def lval_err_def)
  have 5: "builtin_op pf [Num LONG_MIN, Num (- 1)] ''/'' = Inl DivideTrap"
    by (simp add: builtin_op_def lval_pop_0 long_arith_def long_div_def LONG_MIN_def)
  have 6: "lval_eval pf (3 + n) (global_env pf) (Sexpr [Sym ''/'', Num LONG_MIN, Num (- 1)]) =
       Inl DivideTrap"
    by (simp add: eval_simps builtin_op_def long_arith_def long_div_def LONG_MIN_def)
  from 1 2 3 4 5 6 show ?thesis by blast
qed

theorem builtin_op_division_witness:
  "(2 :: long) \<noteq> 0 \<and> \<not> ((- 7 :: long) = LONG_MIN \<and> (2 :: long) = - 1)
   \<and> builtin_op null_platform [Num (- 7), Num 2] ''/'' = Inr (Num (- 3))
   \<and> all_numbers [Num 5, Flt 1]
   \<and> builtin_op null_platform [Num (- 7), Num 0, Num 5, Flt 1] ''/'' =
       Inr (Err ''Division By Zero!'')"
  using builtin_op_division [where b = 2 and a = "- 7" and pf = null_platform
          and rest = "[Num 5, Flt 1]" and n = 0]
  by (simp add: LONG_MIN_def signed_divide_int_def)

subsection \<open>C6: partial application\<close>

text \<open>
  C6 says that a closure called with fewer arguments than it has formals is not evaluated
  and yields a Function, a copy of the closure with the supplied arguments bound and the
  remaining formals kept, so that \<^verbatim>\<open>((\ {x y} {+ x y}) 1)\<close> is a Function that gives 3
  when applied to 2. What the code computes, for formals that are the names \<open>ps\<close>:
  formals remain unbound after the binding phase exactly when there are fewer arguments
  than formals and the marker \<^verbatim>\<open>&\<close> is neither among the formals that receive an
  argument nor the first formal left over (otherwise the step for \<^verbatim>\<open>&\<close> binds the rest
  or fails). In that case the body is not evaluated (the result does not depend on the
  depth bound, and the caller's environment is unchanged) and the result is the Function
  that \<^verbatim>\<open>lval_copy\<close> makes of the closure, after one \<^verbatim>\<open>lenv_put\<close> per supplied argument
  and with the remaining formals. When the arguments, the environment and the body
  contain no Float, that Function is the closure itself with the arguments bound, and
  the two instances of the claim hold. With a Float argument it is not: \<^verbatim>\<open>((\ {x y} {+ x y}) d)\<close> for a
  Float \<open>d\<close> is the Function in which \<open>x\<close> is bound to a Float with the uninitialised
  payload, and applying it to 1 adds 1 to that payload instead of \<open>d\<close>.
\<close>

theorem lval_call_partial:
  "((\<exists>fenv2 fs2. call_formals pf g t fenv (map Sym ps) a = Inr (Bound fenv2 fs2) \<and> fs2 \<noteq> [])
      \<longleftrightarrow> (length a < length ps \<and> ''&'' \<notin> set (take (Suc (length a)) ps)))
   \<and> (length a < length ps \<longrightarrow> ''&'' \<notin> set (take (Suc (length a)) ps) \<longrightarrow>
        lval_call pf n e (Lambda fenv (Qexpr (map Sym ps)) body) a =
          Inr (e, lval_copy pf (Lambda (bind_args pf fenv ps a)
                                       (Qexpr (map Sym (drop (length a) ps))) body))
        \<and> is_fun (lval_copy pf (Lambda (bind_args pf fenv ps a)
                                       (Qexpr (map Sym (drop (length a) ps))) body))
        \<and> (frame_float_free fenv \<longrightarrow> list_all float_free a \<longrightarrow> float_free body \<longrightarrow>
             lval_call pf n e (Lambda fenv (Qexpr (map Sym ps)) body) a =
               Inr (e, Lambda (bind_args pf fenv ps a)
                              (Qexpr (map Sym (drop (length a) ps))) body)))
   \<and> lval_eval pf (4 + m) (global_env pf)
        (Sexpr [Sexpr [Sym [CHR 0x5C], Qexpr [Sym ''x'', Sym ''y''],
                       Qexpr [Sym ''+'', Sym ''x'', Sym ''y'']], Num 1]) =
        Inr (global_env pf,
             Lambda [(''x'', Num 1)] (Qexpr [Sym ''y'']) (Qexpr [Sym ''+'', Sym ''x'', Sym ''y'']))
   \<and> lval_eval pf (4 + m) (global_env pf)
        (Sexpr [Sexpr [Sexpr [Sym [CHR 0x5C], Qexpr [Sym ''x'', Sym ''y''],
                              Qexpr [Sym ''+'', Sym ''x'', Sym ''y'']], Num 1], Num 2]) =
        Inr (global_env pf, Num 3)
   \<and> lval_eval pf (4 + m) (global_env pf)
        (Sexpr [Sexpr [Sym [CHR 0x5C], Qexpr [Sym ''x'', Sym ''y''],
                       Qexpr [Sym ''+'', Sym ''x'', Sym ''y'']], Flt d]) =
        Inr (global_env pf,
             Lambda [(''x'', Flt (uninit pf))] (Qexpr [Sym ''y''])
                    (Qexpr [Sym ''+'', Sym ''x'', Sym ''y'']))
   \<and> lval_eval pf (4 + m) (global_env pf)
        (Sexpr [Sexpr [Sexpr [Sym [CHR 0x5C], Qexpr [Sym ''x'', Sym ''y''],
                              Qexpr [Sym ''+'', Sym ''x'', Sym ''y'']], Flt d], Num 1]) =
        Inr (global_env pf, Flt (d_add pf (uninit pf) (d_of_long pf 1)))"
proof -
  have 1: "length a < length ps \<longrightarrow> ''&'' \<notin> set (take (Suc (length a)) ps) \<longrightarrow>
        lval_call pf n e (Lambda fenv (Qexpr (map Sym ps)) body) a =
          Inr (e, lval_copy pf (Lambda (bind_args pf fenv ps a)
                                       (Qexpr (map Sym (drop (length a) ps))) body))
        \<and> is_fun (lval_copy pf (Lambda (bind_args pf fenv ps a)
                                       (Qexpr (map Sym (drop (length a) ps))) body))
        \<and> (frame_float_free fenv \<longrightarrow> list_all float_free a \<longrightarrow> float_free body \<longrightarrow>
             lval_call pf n e (Lambda fenv (Qexpr (map Sym ps)) body) a =
               Inr (e, Lambda (bind_args pf fenv ps a)
                              (Qexpr (map Sym (drop (length a) ps))) body))"
  proof (intro impI conjI)
    assume h: "length a < length ps" "''&'' \<notin> set (take (Suc (length a)) ps)"
    show c: "lval_call pf n e (Lambda fenv (Qexpr (map Sym ps)) body) a =
          Inr (e, lval_copy pf (Lambda (bind_args pf fenv ps a)
                                       (Qexpr (map Sym (drop (length a) ps))) body))"
      by (rule lval_call_partial_copy [OF h])
    show "is_fun (lval_copy pf (Lambda (bind_args pf fenv ps a)
                                       (Qexpr (map Sym (drop (length a) ps))) body))"
      by simp
    assume f: "frame_float_free fenv" "list_all float_free a" "float_free body"
    then have "float_free (Lambda (bind_args pf fenv ps a)
                               (Qexpr (map Sym (drop (length a) ps))) body)"
      by (simp add: bind_args_float_free float_free_syms)
    from c lval_copy_float_free [OF this, of pf]
    show "lval_call pf n e (Lambda fenv (Qexpr (map Sym ps)) body) a =
               Inr (e, Lambda (bind_args pf fenv ps a)
                              (Qexpr (map Sym (drop (length a) ps))) body)"
      by simp
  qed
  have 2: "lval_eval pf (4 + m) (global_env pf)
        (Sexpr [Sexpr [Sym [CHR 0x5C], Qexpr [Sym ''x'', Sym ''y''],
                       Qexpr [Sym ''+'', Sym ''x'', Sym ''y'']], Num 1]) =
        Inr (global_env pf,
             Lambda [(''x'', Num 1)] (Qexpr [Sym ''y'']) (Qexpr [Sym ''+'', Sym ''x'', Sym ''y'']))"
    by (simp add: eval_simps builtin_lambda_def lval_lambda_def call_formals_def)
  have 3: "lval_eval pf (4 + m) (global_env pf)
        (Sexpr [Sexpr [Sexpr [Sym [CHR 0x5C], Qexpr [Sym ''x'', Sym ''y''],
                              Qexpr [Sym ''+'', Sym ''x'', Sym ''y'']], Num 1], Num 2]) =
        Inr (global_env pf, Num 3)"
    by (simp add: eval_simps builtin_lambda_def lval_lambda_def call_formals_def
                  builtin_op_def long_arith_def)
  have 4: "lval_eval pf (4 + m) (global_env pf)
        (Sexpr [Sexpr [Sym [CHR 0x5C], Qexpr [Sym ''x'', Sym ''y''],
                       Qexpr [Sym ''+'', Sym ''x'', Sym ''y'']], Flt d]) =
        Inr (global_env pf,
             Lambda [(''x'', Flt (uninit pf))] (Qexpr [Sym ''y''])
                    (Qexpr [Sym ''+'', Sym ''x'', Sym ''y'']))"
    by (simp add: eval_simps builtin_lambda_def lval_lambda_def call_formals_def)
  have 5: "lval_eval pf (4 + m) (global_env pf)
        (Sexpr [Sexpr [Sexpr [Sym [CHR 0x5C], Qexpr [Sym ''x'', Sym ''y''],
                              Qexpr [Sym ''+'', Sym ''x'', Sym ''y'']], Flt d], Num 1]) =
        Inr (global_env pf, Flt (d_add pf (uninit pf) (d_of_long pf 1)))"
    by (simp add: eval_simps builtin_lambda_def lval_lambda_def call_formals_def
                  builtin_op_def double_arith_def)
  from call_formals_remaining_iff [of pf g t fenv ps a] 1 2 3 4 5 show ?thesis
    by (intro conjI)
qed

theorem lval_call_partial_witness:
  "length [Num 1] < length [''x'', ''y'']
   \<and> ''&'' \<notin> set (take (Suc (length [Num 1])) [''x'', ''y''])
   \<and> frame_float_free [] \<and> list_all float_free [Num 1]
   \<and> float_free (Qexpr [Sym ''+'', Sym ''x'', Sym ''y''])
   \<and> lval_call null_platform 0 (global_env null_platform)
        (Lambda [] (Qexpr (map Sym [''x'', ''y''])) (Qexpr [Sym ''+'', Sym ''x'', Sym ''y'']))
        [Num 1] =
       Inr (global_env null_platform,
            Lambda [(''x'', Num 1)] (Qexpr [Sym ''y'']) (Qexpr [Sym ''+'', Sym ''x'', Sym ''y'']))"
  using lval_call_partial [where a = "[Num 1]" and ps = "[''x'', ''y'']" and fenv = "[]"
          and body = "Qexpr [Sym ''+'', Sym ''x'', Sym ''y'']" and pf = null_platform
          and n = 0 and e = "global_env null_platform" and m = 0 and g = 1 and t = 2 and d = 0]
  by simp

subsection \<open>C7: the variadic formal\<close>

text \<open>
  C7 says that the formal after \<^verbatim>\<open>&\<close> is bound to all remaining arguments, collected as a
  QExpr, and to the empty QExpr when none remains, so that \<^verbatim>\<open>((\ {x & xs} {xs}) 1 2 3)\<close>
  is \<open>{2 3}\<close>. What the code computes: when the formals are the names \<open>ps\<close> (none of them
  \<^verbatim>\<open>&\<close>), then \<^verbatim>\<open>&\<close>, then one name \<open>r\<close>, and the call supplies one argument for each of
  \<open>ps\<close> followed by any arguments \<open>rest\<close>, the binding phase ends with no formal left and
  with \<open>r\<close> bound by \<^verbatim>\<open>lenv_put\<close> to the QExpr of all of \<open>rest\<close>; the body is then
  evaluated in that environment, with the caller's environment as parent. \<^verbatim>\<open>lenv_put\<close>
  stores what \<^verbatim>\<open>lval_copy\<close> returns: the empty QExpr for no argument, the list itself
  for arguments without Float, and \<^verbatim>\<open>((\ {x & xs} {xs}) 1 2 3)\<close> evaluates to \<open>{2 3}\<close>; but
  with a Float \<open>d\<close> as the surplus argument, \<^verbatim>\<open>((\ {x & xs} {xs}) 1 d)\<close> evaluates to the
  list of one Float with the uninitialised payload instead of \<open>{d}\<close>.
\<close>

theorem call_formals_variadic_binding:
  assumes "length as = length ps" and "''&'' \<notin> set ps"
  shows "call_formals pf g t fenv (map Sym ps @ [Sym ''&'', Sym r]) (as @ rest) =
           Inr (Bound (frame_put pf (bind_args pf fenv ps as) r (Qexpr rest)) [])
       \<and> frame_get (frame_put pf (bind_args pf fenv ps as) r (Qexpr rest)) r =
           Some (lval_copy pf (Qexpr rest))
       \<and> lval_copy pf (Qexpr []) = Qexpr []
       \<and> (list_all float_free rest \<longrightarrow> lval_copy pf (Qexpr rest) = Qexpr rest)
       \<and> lval_call pf n e (Lambda fenv (Qexpr (map Sym ps @ [Sym ''&'', Sym r])) body)
            (as @ rest) =
           (case builtin_eval pf n
                   (Lenv (frame_put pf (bind_args pf fenv ps as) r (Qexpr rest)) (Some e))
                   [lval_copy pf body] of
              Inl flt \<Rightarrow> Inl flt
            | Inr (Lenv fenv3 (Some e'), x) \<Rightarrow> Inr (e', x)
            | Inr (Lenv fenv3 None, x) \<Rightarrow> Inl BadField)
       \<and> lval_eval pf (3 + m) (global_env pf)
           (Sexpr [Sexpr [Sym [CHR 0x5C], Qexpr [Sym ''x'', Sym ''&'', Sym ''xs''],
                          Qexpr [Sym ''xs'']], Num 1, Num 2, Num 3]) =
           Inr (global_env pf, Qexpr [Num 2, Num 3])
       \<and> lval_eval pf (3 + m) (global_env pf)
           (Sexpr [Sexpr [Sym [CHR 0x5C], Qexpr [Sym ''x'', Sym ''&'', Sym ''xs''],
                          Qexpr [Sym ''xs'']], Num 1, Flt d]) =
           Inr (global_env pf, Qexpr [Flt (uninit pf)])"
proof -
  note cf = call_formals_variadic [OF assms, of pf _ _ fenv r rest]
  have 1: "lval_copy pf (Qexpr []) = Qexpr []" by simp
  have 2: "list_all float_free rest \<longrightarrow> lval_copy pf (Qexpr rest) = Qexpr rest"
    using lval_copy_float_free [of "Qexpr rest" pf] by simp
  have 3: "lval_call pf n e (Lambda fenv (Qexpr (map Sym ps @ [Sym ''&'', Sym r])) body)
            (as @ rest) =
           (case builtin_eval pf n
                   (Lenv (frame_put pf (bind_args pf fenv ps as) r (Qexpr rest)) (Some e))
                   [lval_copy pf body] of
              Inl flt \<Rightarrow> Inl flt
            | Inr (Lenv fenv3 (Some e'), x) \<Rightarrow> Inr (e', x)
            | Inr (Lenv fenv3 None, x) \<Rightarrow> Inl BadField)"
    unfolding lval_call.simps [of pf n e _ "as @ rest"]
    by (simp add: cf del: map_append)
  have 4: "lval_eval pf (3 + m) (global_env pf)
           (Sexpr [Sexpr [Sym [CHR 0x5C], Qexpr [Sym ''x'', Sym ''&'', Sym ''xs''],
                          Qexpr [Sym ''xs'']], Num 1, Num 2, Num 3]) =
           Inr (global_env pf, Qexpr [Num 2, Num 3])"
    by (simp add: eval_simps builtin_lambda_def lval_lambda_def call_formals_def)
  have 5: "lval_eval pf (3 + m) (global_env pf)
           (Sexpr [Sexpr [Sym [CHR 0x5C], Qexpr [Sym ''x'', Sym ''&'', Sym ''xs''],
                          Qexpr [Sym ''xs'']], Num 1, Flt d]) =
           Inr (global_env pf, Qexpr [Flt (uninit pf)])"
    by (simp add: eval_simps builtin_lambda_def lval_lambda_def call_formals_def)
  from cf frame_get_put 1 2 3 4 5 show ?thesis by blast
qed

theorem call_formals_variadic_binding_witness:
  "length [Num 1] = length [''x''] \<and> ''&'' \<notin> set [''x'']
   \<and> call_formals null_platform 3 3 [] (map Sym [''x''] @ [Sym ''&'', Sym ''xs''])
        ([Num 1] @ [Num 2, Num 3]) =
       Inr (Bound [(''x'', Num 1), (''xs'', Qexpr [Num 2, Num 3])] [])
   \<and> list_all float_free [Num 2, Num 3]
   \<and> lval_copy null_platform (Qexpr [Num 2, Num 3]) = Qexpr [Num 2, Num 3]"
  using call_formals_variadic_binding [of "[Num 1]" "[''x'']" null_platform 3 3 "[]" "''xs''"
          "[Num 2, Num 3]" 0 "global_env null_platform" "Qexpr [Sym ''xs'']" 0 0]
  by simp

subsection \<open>C8: the first Error of an S-expression\<close>

text \<open>
  C8: when the children of an SExpr have been evaluated from left to right, giving the
  values \<open>v\<close> and the environment \<open>e1\<close>, and \<open>i\<close> is the position of the leftmost Error
  among them, then the evaluation of the SExpr returns exactly that Error (and \<open>e1\<close>):
  no other child, to its left or to its right, is part of the result, and no function
  is applied.
\<close>

theorem lval_eval_sexpr_first_error:
  assumes "eval_cells pf n e cell = Inr (e1, v)"
    and "i < length v" and "is_err (v ! i)" and "\<forall>j<i. \<not> is_err (v ! j)"
  shows "lval_eval_sexpr pf n e cell = Inr (e1, v ! i)"
  using assms(1) first_error_least [OF assms(2-4)]
  by (simp add: lval_eval_sexpr.simps)

theorem lval_eval_sexpr_first_error_witness:
  "eval_cells null_platform 1 (global_env null_platform) [Num 1, Sym ''a'', Sym ''b''] =
     Inr (global_env null_platform,
          [Num 1, Err (''Unbound Symbol '' @ [CHR 0x27] @ ''a'' @ [CHR 0x27]),
           Err (''Unbound Symbol '' @ [CHR 0x27] @ ''b'' @ [CHR 0x27])])
   \<and> lval_eval_sexpr null_platform 1 (global_env null_platform)
        [Num 1, Sym ''a'', Sym ''b''] =
     Inr (global_env null_platform, Err (''Unbound Symbol '' @ [CHR 0x27] @ ''a'' @ [CHR 0x27]))"
proof -
  have ev: "eval_cells null_platform 1 (global_env null_platform) [Num 1, Sym ''a'', Sym ''b''] =
     Inr (global_env null_platform,
          [Num 1, Err (''Unbound Symbol '' @ [CHR 0x27] @ ''a'' @ [CHR 0x27]),
           Err (''Unbound Symbol '' @ [CHR 0x27] @ ''b'' @ [CHR 0x27])])"
    by (simp add: global_env_eq lval_err_def)
  from lval_eval_sexpr_first_error [OF ev, of 1] ev show ?thesis
    by (simp add: less_Suc_eq)
qed

subsection \<open>C9: the integer power\<close>

text \<open>
  C9: for every base \<open>b\<close> and every exponent \<open>e\<close> that the \<^verbatim>\<open>int\<close> parameter of \<^verbatim>\<open>ipow\<close>
  holds without change, \<open>0 \<le> e < 2^31\<close> (so for all \<open>e \<le> 32\<close>), the squaring routine
  returns what iterative multiplication of \<open>b\<close> with itself \<open>e\<close> times returns, in
  \<^verbatim>\<open>long\<close> arithmetic; so does \<^verbatim>\<open>^\<close> on two Integers; and \<^verbatim>\<open>(^ 2 10)\<close> evaluates to the
  Integer 1024.
\<close>

theorem ipow_iter_mult:
  assumes "0 \<le> e" and "e < 2 ^ 31"
  shows "ipow b e = iter_mult b (nat e)
       \<and> builtin_op pf [Num b, Num (word_of_int e)] ''^'' = Inr (Num (iter_mult b (nat e)))
       \<and> lval_eval pf (3 + n) (global_env pf) (Sexpr [Sym ''^'', Num 2, Num 10]) =
           Inr (global_env pf, Num 1024)"
proof -
  have 1: "ipow b e = iter_mult b (nat e)"
    using assms(1) by (simp add: ipow_def ipow_loop_eq iter_mult_power)
  have 2: "builtin_op pf [Num b, Num (word_of_int e)] ''^'' = Inr (Num (iter_mult b (nat e)))"
    by (simp add: builtin_op_def lval_pop_0 long_arith_def int_of_long_small [OF assms] 1)
  have "int_of_long 10 = 10"
    using int_of_long_small [of 10] by simp
  then have 3: "lval_eval pf (3 + n) (global_env pf) (Sexpr [Sym ''^'', Num 2, Num 10]) =
           Inr (global_env pf, Num 1024)"
    by (simp add: eval_simps builtin_op_def long_arith_def ipow_def ipow_loop_eq)
  from 1 2 3 show ?thesis by simp
qed

theorem ipow_iter_mult_witness:
  "(0 :: int) \<le> 32 \<and> (32 :: int) < 2 ^ 31
   \<and> ipow 3 32 = iter_mult 3 32
   \<and> builtin_op null_platform [Num 3, Num 32] ''^'' = Inr (Num 1853020188851841)"
  using ipow_iter_mult [of 32 3 null_platform 0]
  by (simp add: iter_mult_power)

subsection \<open>C10: head\<close>

text \<open>
  C10: for every non-empty QExpr passed as the only argument, \<^verbatim>\<open>head\<close> returns the QExpr
  that holds exactly the first element, a list of one element and not the element
  itself; nothing else of the operand is part of the result. The same through the
  evaluator in the global environment, with any depth bound of at least 3.
\<close>

theorem builtin_head_singleton:
  "builtin_head [Qexpr (c # cell)] = Inr (Qexpr [c])
   \<and> lval_eval pf (3 + n) (global_env pf) (Sexpr [Sym ''head'', Qexpr (c # cell)]) =
       Inr (global_env pf, Qexpr [c])"
proof -
  have 1: "builtin_head [Qexpr (c # cell)] = Inr (Qexpr [c])"
    by (simp add: builtin_head_def lval_take_0 head_loop_Cons)
  have 2: "lval_eval pf (3 + n) (global_env pf) (Sexpr [Sym ''head'', Qexpr (c # cell)]) =
       Inr (global_env pf, Qexpr [c])"
    by (simp add: eval_simps 1)
  from 1 2 show ?thesis by simp
qed

end
